theory Spec2Isabelle
  imports Complex_Main
begin

section \<open>Python values used by PyWhis.py\<close>

subsection \<open>Decimal rendering of integers\<close>

definition digit_char :: "nat \<Rightarrow> char" where
  "digit_char d = ''0123456789'' ! d"

fun digits :: "nat \<Rightarrow> string" where
  "digits n = (if n < 10 then [digit_char n] else digits (n div 10) @ [digit_char (n mod 10)])"

declare digits.simps [simp del]

definition py_str_int :: "int \<Rightarrow> string" where
  "py_str_int i = (if i < 0 then CHR ''-'' # digits (nat (- i)) else digits (nat i))"

subsection \<open>Binary64 floating point\<close>

function bitlen :: "int \<Rightarrow> nat" where
  "bitlen n = (if n \<le> 0 then 0 else Suc (bitlen (n div 2)))"
  by pat_completeness auto
termination
  by (relation "measure nat") auto

declare bitlen.simps [simp del]

definition round_half_even :: "int \<Rightarrow> int \<Rightarrow> int" where
  "round_half_even a b =
     (let k = a div b; r = a mod b
      in if 2 * r < b then k
         else if b < 2 * r then k + 1
         else if even k then k else k + 1)"

definition fl_exponent :: "int \<Rightarrow> int \<Rightarrow> int" where
  "fl_exponent p q =
     (let d = int (bitlen p) - int (bitlen q)
      in if (if 0 \<le> d then q * 2 ^ nat d \<le> p else q \<le> p * 2 ^ nat (- d)) then d else d - 1)"

type_synonym float64 = "int \<times> int"

definition fl_round :: "int \<Rightarrow> int \<Rightarrow> float64" where
  "fl_round p q =
     (if p = 0 then (0, 0)
      else let s = 52 - fl_exponent p q
           in (if 0 \<le> s then round_half_even (p * 2 ^ nat s) q
               else round_half_even p (q * 2 ^ nat (- s)), - s))"

datatype py_error = ZeroDivisionError | KeyError string

definition py_truediv :: "int \<Rightarrow> int \<Rightarrow> py_error + float64" where
  "py_truediv a b =
     (if b = 0 then Inl ZeroDivisionError
      else let (m, e) = fl_round \<bar>a\<bar> \<bar>b\<bar>
           in Inr (sgn a * sgn b * m, e))"

definition fl_mul :: "float64 \<Rightarrow> float64 \<Rightarrow> float64" where
  "fl_mul x y =
     (let m = fst x * fst y; e = snd x + snd y;
          (r, k) = (if 0 \<le> e then fl_round (\<bar>m\<bar> * 2 ^ nat e) 1
                    else fl_round \<bar>m\<bar> (2 ^ nat (- e)))
      in (sgn m * r, k))"

definition py_int :: "float64 \<Rightarrow> int" where
  "py_int x =
     (let (m, e) = x
      in if 0 \<le> e then m * 2 ^ nat e
         else sgn m * (\<bar>m\<bar> div 2 ^ nat (- e)))"

definition format_1f :: "float64 \<Rightarrow> string" where
  "format_1f x =
     (let (m, e) = x;
          n = (if 0 \<le> e then 10 * \<bar>m\<bar> * 2 ^ nat e
               else round_half_even (10 * \<bar>m\<bar>) (2 ^ nat (- e)))
      in (if m < 0 then ''-'' else []) @ digits (nat (n div 10)) @ ''.'' @ digits (nat (n mod 10)))"

definition percent :: "int \<Rightarrow> int \<Rightarrow> py_error + int" where
  "percent a b =
     (case py_truediv a b of
        Inl err \<Rightarrow> Inl err
      | Inr x \<Rightarrow> Inr (py_int (fl_mul x (100, 0))))"


subsection \<open>Strings\<close>

definition newline :: char where
  "newline = CHR 0x0A"

definition is_space :: "char \<Rightarrow> bool" where
  "is_space c = (of_char c \<in> {9, 10, 11, 12, 13, 28, 29, 30, 31, 32 :: nat})"

fun split_from :: "string \<Rightarrow> string \<Rightarrow> string list" where
  "split_from cur [] = (if cur = [] then [] else [cur])"
| "split_from cur (c # cs) =
     (if is_space c then (if cur = [] then split_from [] cs else cur # split_from [] cs)
      else split_from (cur @ [c]) cs)"

definition py_split :: "string \<Rightarrow> string list" where
  "py_split s = split_from [] s"

fun split_on_from :: "char \<Rightarrow> string \<Rightarrow> string \<Rightarrow> string list" where
  "split_on_from sep cur [] = [cur]"
| "split_on_from sep cur (c # cs) =
     (if c = sep then cur # split_on_from sep [] cs else split_on_from sep (cur @ [c]) cs)"

definition split_on :: "char \<Rightarrow> string \<Rightarrow> string list" where
  "split_on sep s = split_on_from sep [] s"

fun join :: "string \<Rightarrow> string list \<Rightarrow> string" where
  "join sep [] = []"
| "join sep [x] = x"
| "join sep (x # y # ys) = x @ sep @ join sep (y # ys)"

subsection \<open>pathlib paths (POSIX flavour)\<close>

definition path_root :: "string \<Rightarrow> string" where
  "path_root s =
     (if take 1 s \<noteq> ''/'' then []
      else if take 2 s = ''//'' \<and> take 3 s \<noteq> ''///'' then ''//''
      else ''/'')"

definition path_parts :: "string \<Rightarrow> string list" where
  "path_parts s = filter (\<lambda>p. p \<noteq> [] \<and> p \<noteq> ''.'') (split_on CHR ''/'' s)"

definition path_str :: "string \<Rightarrow> string" where
  "path_str s =
     (if path_root s = [] \<and> path_parts s = [] then ''.''
      else path_root s @ join ''/'' (path_parts s))"

definition path_name :: "string \<Rightarrow> string" where
  "path_name s = (if path_parts s = [] then [] else last (path_parts s))"

fun rfind :: "char \<Rightarrow> string \<Rightarrow> int" where
  "rfind c [] = - 1"
| "rfind c (x # xs) =
     (let r = rfind c xs in if 0 \<le> r then r + 1 else if x = c then 0 else - 1)"

definition path_stem :: "string \<Rightarrow> string" where
  "path_stem s =
     (let name = path_name s; i = rfind CHR ''.'' name
      in if 0 < i \<and> i < int (length name) - 1 then take (nat i) name else name)"

definition path_join :: "string \<Rightarrow> string \<Rightarrow> string" where
  "path_join d f =
     path_str (if take 1 f = ''/'' \<or> d = [] then f
               else if last d = CHR ''/'' then d @ f
               else d @ ''/'' @ f)"

subsection \<open>datetime and strftime\<close>

record datetime =
  year :: nat
  month :: nat
  day :: nat
  hour :: nat
  minute :: nat
  second :: nat

definition zero_pad :: "nat \<Rightarrow> nat \<Rightarrow> string" where
  "zero_pad w n = replicate (w - length (digits n)) CHR ''0'' @ digits n"

definition strftime_file :: "datetime \<Rightarrow> string" where
  "strftime_file t =
     zero_pad 4 (year t) @ zero_pad 2 (month t) @ zero_pad 2 (day t) @ ''_'' @
     zero_pad 2 (hour t) @ zero_pad 2 (minute t) @ zero_pad 2 (second t)"

definition strftime_header :: "datetime \<Rightarrow> string" where
  "strftime_header t =
     zero_pad 4 (year t) @ ''-'' @ zero_pad 2 (month t) @ ''-'' @ zero_pad 2 (day t) @ '' '' @
     zero_pad 2 (hour t) @ '':'' @ zero_pad 2 (minute t) @ '':'' @ zero_pad 2 (second t)"


section \<open>Signals and effects\<close>

text \<open>
  Every signal emitted by a worker thread and every effect on the file system or the network
  is recorded, in the order it happens, in one trace. \<open>MakeDirs\<close> is a successful
  \<open>mkdir(parents=True, exist_ok=True)\<close>, \<open>SaveTranscription\<close> the file written by
  \<open>save_transcription\<close>, \<open>WriteErrorLog\<close> the file written by \<open>write_error_log\<close> and
  \<open>UrlRetrieve\<close> the transfer started by \<open>urllib.request.urlretrieve\<close>.
\<close>

datatype event =
    Progress int
  | Status string
  | FileComplete string real int
  | AllComplete real int int
  | Error string string
  | FinishedDownload string
  | DownloadError string
  | MakeDirs string
  | SaveTranscription string string
  | WriteErrorLog string string
  | UrlRetrieve string string

section \<open>TranscriptionWorker\<close>

text \<open>
  The collaborators of the worker: the loaded model, the file system, the clock and the thread
  that may call \<open>cancel\<close>. Calls inside the loop are indexed by the iteration that makes them. An
  exception is represented by its message \<open>str(e)\<close>.
\<close>

record world =
  cancel_called :: "nat \<Rightarrow> bool"
  transcribe :: "nat \<Rightarrow> string \<Rightarrow> string + string"
  output_mkdir_raises :: "nat \<Rightarrow> string option"
  save_raises :: "nat \<Rightarrow> string option"
  time_time :: "nat \<Rightarrow> real"
  log_mkdir_raises :: "string option"
  log_open_raises :: "string option"
  datetime_now :: "nat \<Rightarrow> datetime"

record worker =
  files :: "string list"
  output_dir :: string
  error_log_path :: string
  is_cancelled :: bool
  errors :: "(string \<times> string) list"

definition TranscriptionWorker_init :: "string list \<Rightarrow> string \<Rightarrow> string \<Rightarrow> worker" where
  "TranscriptionWorker_init fs out_dir log_path =
     \<lparr>files = fs, output_dir = out_dir, error_log_path = log_path,
      is_cancelled = False, errors = []\<rparr>"

definition cancel :: "worker \<Rightarrow> worker" where
  "cancel self = self\<lparr>is_cancelled := True\<rparr>"

text \<open>The worker object together with the local variables of \<open>run\<close> and the trace.\<close>

record run_state =
  self :: worker
  total_words :: int
  successful_files :: int
  clock_reads :: nat
  trace :: "event list"

definition emit :: "event \<Rightarrow> run_state \<Rightarrow> run_state" where
  "emit e s = s\<lparr>trace := trace s @ [e]\<rparr>"

definition get_time :: "world \<Rightarrow> run_state \<Rightarrow> real \<times> run_state" where
  "get_time w s = (time_time w (clock_reads s), s\<lparr>clock_reads := Suc (clock_reads s)\<rparr>)"

definition skipped_prefix :: string where
  "skipped_prefix =
     [CHR 0xE2, CHR 0x80, CHR 0x9A, CHR 0xC3, CHR 0xB6, CHR 0xE2, CHR 0x80, CHR 0xA0,
      CHR 0xC3, CHR 0x94, CHR 0xE2, CHR 0x88, CHR 0x8F, CHR 0xC3, CHR 0xA8]"

definition on_exception :: "string \<Rightarrow> string \<Rightarrow> run_state \<Rightarrow> run_state" where
  "on_exception file_name msg s =
     (let s1 = s\<lparr>self := (self s)\<lparr>errors := errors (self s) @ [(file_name, msg)]\<rparr>\<rparr>;
          s2 = emit (Error file_name msg) s1
      in emit (Status (skipped_prefix @ '' Skipped '' @ file_name @ '' due to error'')) s2)"

definition try_transcribe :: "world \<Rightarrow> nat \<Rightarrow> string \<Rightarrow> string \<Rightarrow> run_state \<Rightarrow> run_state" where
  "try_transcribe w idx file_path file_name s =
     (let (file_start, s1) = get_time w s
      in (case transcribe w idx file_path of
            Inl msg \<Rightarrow> on_exception file_name msg s1
          | Inr text \<Rightarrow>
             (let (file_end, s2) = get_time w s1;
                  file_duration = file_end - file_start;
                  word_count = int (length (py_split text));
                  s3 = s2\<lparr>total_words := total_words s2 + word_count\<rparr>
              in (case output_mkdir_raises w idx of
                    Some msg \<Rightarrow> on_exception file_name msg s3
                  | None \<Rightarrow>
                     (let s4 = emit (MakeDirs (path_str (output_dir (self s3)))) s3;
                          output_filename = path_stem file_path @ ''.txt'';
                          output_path = path_join (output_dir (self s4)) output_filename
                      in (case save_raises w idx of
                            Some msg \<Rightarrow> on_exception file_name msg s4
                          | None \<Rightarrow>
                             (let s5 = emit (SaveTranscription output_path text) s4;
                                  s6 = s5\<lparr>successful_files := successful_files s5 + 1\<rparr>
                              in emit (FileComplete file_name file_duration word_count) s6)))))))"

definition process_file :: "world \<Rightarrow> nat \<Rightarrow> nat \<Rightarrow> string \<Rightarrow> run_state \<Rightarrow> py_error + run_state" where
  "process_file w total_files idx file_path s =
     (let file_name = path_name file_path;
          s1 = emit (Status (''Transcribing '' @ file_name @ '' ('' @ digits (idx + 1) @ ''/'' @
                             digits total_files @ '')...'')) s;
          s2 = try_transcribe w idx file_path file_name s1
      in (case percent (int idx + 1) (int total_files) of
            Inl err \<Rightarrow> Inl err
          | Inr progress_percent \<Rightarrow> Inr (emit (Progress progress_percent) s2)))"

definition observe_cancel :: "world \<Rightarrow> nat \<Rightarrow> run_state \<Rightarrow> run_state" where
  "observe_cancel w idx s = (if cancel_called w idx then s\<lparr>self := cancel (self s)\<rparr> else s)"

fun run_loop :: "world \<Rightarrow> nat \<Rightarrow> nat \<Rightarrow> string list \<Rightarrow> run_state \<Rightarrow> py_error + run_state" where
  "run_loop w total_files idx [] s = Inr s"
| "run_loop w total_files idx (file_path # rest) s =
     (let s1 = observe_cancel w idx s
      in if is_cancelled (self s1) then Inr (emit (Status ''Transcription cancelled'') s1)
         else (case process_file w total_files idx file_path s1 of
                 Inl err \<Rightarrow> Inl err
               | Inr s2 \<Rightarrow> run_loop w total_files (Suc idx) rest s2))"

definition error_log_block :: "string \<times> string \<Rightarrow> string" where
  "error_log_block entry =
     ''File: '' @ fst entry @ [newline] @
     ''Error: '' @ snd entry @ [newline] @
     replicate 70 CHR ''-'' @ [newline, newline]"

definition error_log_text :: "string \<Rightarrow> (string \<times> string) list \<Rightarrow> string" where
  "error_log_text stamp errs =
     ''Transcription Error Log - '' @ stamp @ [newline] @
     replicate 70 CHR ''='' @ [newline, newline] @
     concat (map error_log_block errs)"

definition log_failed :: "string \<Rightarrow> run_state \<Rightarrow> run_state" where
  "log_failed msg s = emit (Error ''Error Log'' (''Could not write error log: '' @ msg)) s"

definition write_error_log :: "world \<Rightarrow> run_state \<Rightarrow> run_state" where
  "write_error_log w s =
     (case log_mkdir_raises w of
        Some msg \<Rightarrow> log_failed msg s
      | None \<Rightarrow>
         (let s1 = emit (MakeDirs (path_str (error_log_path (self s)))) s;
              timestamp = strftime_file (datetime_now w 0);
              log_file = path_join (error_log_path (self s1))
                           (''transcription_errors_'' @ timestamp @ ''.log'')
          in (case log_open_raises w of
                Some msg \<Rightarrow> log_failed msg s1
              | None \<Rightarrow>
                  emit (WriteErrorLog log_file
                          (error_log_text (strftime_header (datetime_now w 1))
                             (errors (self s1)))) s1)))"

definition finish :: "world \<Rightarrow> real \<Rightarrow> run_state \<Rightarrow> run_state" where
  "finish w start_time s =
     (let s1 = (if errors (self s) \<noteq> [] \<and> error_log_path (self s) \<noteq> []
                then write_error_log w s else s);
          (end_time, s2) = get_time w s1;
          total_duration = end_time - start_time
      in emit (AllComplete total_duration (total_words s2) (successful_files s2)) s2)"

definition TranscriptionWorker_run :: "world \<Rightarrow> worker \<Rightarrow> py_error + run_state" where
  "TranscriptionWorker_run w self0 =
     (let total_files = length (files self0);
          s0 = \<lparr>self = self0, total_words = 0, successful_files = 0, clock_reads = 0, trace = []\<rparr>;
          (start_time, s1) = get_time w s0
      in (case run_loop w total_files 0 (files self0) s1 of
            Inl err \<Rightarrow> Inl err
          | Inr s2 \<Rightarrow> Inr (finish w start_time s2)))"


section \<open>ModelDownloadWorker\<close>

definition MODEL_URLS :: "(string \<times> string) list" where
  "MODEL_URLS =
     [(''tiny'', ''https://openaipublic.azureedge.net/main/whisper/models/65147644a518d12f04e32d6f3b26facc3f8dd46e5390956a9424a650c0ce22b9/tiny.pt''),
      (''base'', ''https://openaipublic.azureedge.net/main/whisper/models/ed3a0b6b1c0edf879ad9b11b1af5a0e6ab5db9205f891f668f8b0e6c6326e34e/base.pt''),
      (''small'', ''https://openaipublic.azureedge.net/main/whisper/models/9ecf779972d90ba49c06d968637d720dd632c55bbf19d441fb42bf17a411e794/small.pt''),
      (''medium'', ''https://openaipublic.azureedge.net/main/whisper/models/345ae4da62f9b3d59415adc60127b97c714f32e89e936602e85993674d08dcb1/medium.pt''),
      (''large-v2'', ''https://openaipublic.azureedge.net/main/whisper/models/81f7c96c852ee8fc832187b0132e569d6c3065a3252ed18e56effd0b6a73e524/large-v2.pt''),
      (''large-v3'', ''https://openaipublic.azureedge.net/main/whisper/models/e5b1a55b89c1367dacf97e3e19bfd829a01529dbfdeefa8caeb59b3f1b81dadb/large-v3.pt'')]"

definition MODEL_SIZES :: "(string \<times> string) list" where
  "MODEL_SIZES =
     [(''tiny'', ''~75 MB''), (''base'', ''~142 MB''), (''small'', ''~466 MB''),
      (''medium'', ''~1.5 GB''), (''large-v2'', ''~3 GB''), (''large-v3'', ''~3 GB'')]"

definition py_error_str :: "py_error \<Rightarrow> string" where
  "py_error_str err =
     (case err of
        ZeroDivisionError \<Rightarrow> ''division by zero''
      | KeyError k \<Rightarrow> [CHR 0x27] @ k @ [CHR 0x27])"

text \<open>
  The collaborators of the download: whether a path exists, whether creating the models
  directory raises, the calls \<open>urlretrieve\<close> makes to its report hook (block number, block size,
  total size; the total is not positive when unknown) and whether the transfer raises after
  them.
\<close>

record download_world =
  path_exists :: "string \<Rightarrow> bool"
  models_mkdir_raises :: "string option"
  hook_calls :: "(int \<times> int \<times> int) list"
  retrieve_raises :: "string option"

definition report_progress :: "int \<Rightarrow> int \<Rightarrow> int \<Rightarrow> event list \<times> py_error option" where
  "report_progress block_num block_size total_size =
     (let downloaded = block_num * block_size
      in if 0 < total_size then
           (case percent downloaded total_size of
              Inl err \<Rightarrow> ([], Some err)
            | Inr percent_value \<Rightarrow>
               (case py_truediv downloaded (1024 * 1024) of
                  Inl err \<Rightarrow> ([Progress percent_value], Some err)
                | Inr mb_downloaded \<Rightarrow>
                   (case py_truediv total_size (1024 * 1024) of
                      Inl err \<Rightarrow> ([Progress percent_value], Some err)
                    | Inr mb_total \<Rightarrow>
                        ([Progress percent_value,
                          Status (''Downloading: '' @ format_1f mb_downloaded @ '' MB / '' @
                                  format_1f mb_total @ '' MB'')], None))))
         else ([], None))"

fun urlretrieve :: "(int \<times> int \<times> int) list \<Rightarrow> event list \<times> py_error option" where
  "urlretrieve [] = ([], None)"
| "urlretrieve ((block_num, block_size, total_size) # calls) =
     (case report_progress block_num block_size total_size of
        (evs, Some err) \<Rightarrow> (evs, Some err)
      | (evs, None) \<Rightarrow> (let (evs', r) = urlretrieve calls in (evs @ evs', r)))"

definition download_failed :: "string \<Rightarrow> event" where
  "download_failed msg = DownloadError (''Download failed: '' @ msg)"

definition ModelDownloadWorker_run :: "download_world \<Rightarrow> string \<Rightarrow> string \<Rightarrow> event list" where
  "ModelDownloadWorker_run net model_name models_dir =
     (case map_of MODEL_URLS model_name of
        None \<Rightarrow> [download_failed (py_error_str (KeyError model_name))]
      | Some url \<Rightarrow>
         (let model_path = path_join models_dir (model_name @ ''.pt'')
          in if path_exists net model_path then
               [Status ''Model already exists, loading...'', FinishedDownload model_path]
             else
               (case models_mkdir_raises net of
                  Some msg \<Rightarrow> [download_failed msg]
                | None \<Rightarrow>
                   MakeDirs (path_str models_dir) #
                   (case map_of MODEL_SIZES model_name of
                      None \<Rightarrow> [download_failed (py_error_str (KeyError model_name))]
                    | Some model_size \<Rightarrow>
                       Status (''Downloading '' @ model_name @ '' model ('' @ model_size @ '')...'') #
                       UrlRetrieve url model_path #
                       (let (evs, err) = urlretrieve (hook_calls net)
                        in evs @
                           (case err of
                              Some e \<Rightarrow> [download_failed (py_error_str e)]
                            | None \<Rightarrow>
                               (case retrieve_raises net of
                                  Some msg \<Rightarrow> [download_failed msg]
                                | None \<Rightarrow>
                                    [Status ''Download complete, loading model...'',
                                     FinishedDownload model_path])))))))"


section \<open>Properties of the batch transcription task\<close>

lemmas worker_defs = TranscriptionWorker_run_def TranscriptionWorker_init_def finish_def
  process_file_def try_transcribe_def on_exception_def observe_cancel_def cancel_def
  get_time_def emit_def write_error_log_def log_failed_def

text \<open>
  C10. Started on an empty list of files, the task does not raise: the loop body, and with it
  the division by the number of files, is never executed. No per-file result, failure or
  progress is emitted; the trace is the single summary, with zero words and zero successful
  files.
\<close>

theorem empty_batch_emits_only_summary:
  "TranscriptionWorker_run w (TranscriptionWorker_init [] out_dir log_path) =
     Inr \<lparr>self = TranscriptionWorker_init [] out_dir log_path,
          total_words = 0, successful_files = 0, clock_reads = 2,
          trace = [AllComplete (time_time w 1 - time_time w 0) 0 0]\<rparr>"
  by (simp add: worker_defs Let_def)

end
